theory Spec2Isabelle
  imports Complex_Main "HOL-Library.Multiset"
begin

section \<open>The review site of server.js\<close>

text \<open>
  server.js is an Express application: a chain of middleware (body parser, cookie
  parser, session, CSRF guard) followed by nine route handlers over two Mongoose
  models, User and Review. The embedding follows the file top to bottom. Everything
  server.js calls but does not define (the JavaScript runtime, the session store, the
  CSRF library, the database driver) is gathered in one record, \<open>env\<close>, and every
  theorem holds for all values of it.
\<close>

subsection \<open>JavaScript values\<close>

text \<open>
  \<open>express.urlencoded\<close> delivers each form field as a string; a field that is not in
  the form is \<open>undefined\<close>, here \<open>None\<close>. (The nested arrays and objects that the
  extended parser builds from bracketed field names are not modelled.) Strings are
  lists of code units below 256.
\<close>

definition truthy :: "string option \<Rightarrow> bool" where
  "truthy v = (case v of None \<Rightarrow> False | Some s \<Rightarrow> s \<noteq> [])"

fun str_of :: "string option \<Rightarrow> string" where
  "str_of None = []"
| "str_of (Some s) = s"

text \<open>
  \<open>String.prototype.trim\<close> removes white space and line terminators from both ends:
  below 256 these are TAB, LF, VT, FF, CR, SP and NBSP.
\<close>

definition is_ws :: "char \<Rightarrow> bool" where
  "is_ws c = (let n = (of_char c :: nat) in (9 \<le> n \<and> n \<le> 13) \<or> n = 32 \<or> n = 160)"

definition trim :: "string \<Rightarrow> string" where
  "trim s = rev (dropWhile is_ws (rev (dropWhile is_ws s)))"

text \<open>
  A JavaScript number is NaN, an infinity or a finite double, and every finite double
  is a rational. \<open>a < b\<close> is false as soon as one side is NaN.
\<close>

datatype jsnum = NaN | NegInf | PosInf | Fin rat

fun js_lt :: "jsnum \<Rightarrow> jsnum \<Rightarrow> bool" where
  "js_lt (Fin a) (Fin b) = (a < b)"
| "js_lt NegInf (Fin b) = True"
| "js_lt NegInf PosInf = True"
| "js_lt (Fin a) PosInf = True"
| "js_lt a b = False"

definition js_gt :: "jsnum \<Rightarrow> jsnum \<Rightarrow> bool" where
  "js_gt a b = js_lt b a"

text \<open>An object with string-valued properties, in the order they were written.\<close>

type_synonym jsobj = "(string \<times> string) list"

subsection \<open>What server.js does not define\<close>

text \<open>
  \<^item> \<open>NODE_ENV\<close>: \<open>process.env.NODE_ENV\<close>.
  \<^item> \<open>ToNumber\<close>: the conversion JavaScript applies to a string operand of \<open><\<close> and
    \<open>>\<close> (and Mongoose to a string stored in a Number path).
  \<^item> \<open>hash_password\<close>, \<open>password_matches\<close>: the hashing of models/User.js (its pre-save
    hook and its \<open>comparePassword\<close> method: candidate first, stored hash second).
  \<^item> \<open>token_matches\<close>: csurf's check of a submitted token against a secret.
  \<^item> \<open>new_secret\<close>: the secret csurf generates for a request that brings none.
  \<^item> \<open>db_fault n\<close>: whether the \<open>n\<close>-th awaited call of this request rejects for a
    reason of the driver's own (connection lost, server unavailable, ...).
  \<^item> \<open>cast_12 i\<close>: what the driver makes of a 12-character string given as an
    identifier. Older drivers read it as the twelve bytes of an ObjectId (the result,
    in hexadecimal), newer ones refuse it (\<open>None\<close>).
  \<^item> \<open>destroy_err\<close>: whether the session store reports an error to the callback of
    \<open>req.session.destroy\<close>.
  \<^item> \<open>new_id\<close>: the \<open>_id\<close> the driver gives the document constructed in this request.
  \<^item> \<open>Date_now\<close>: the clock, in milliseconds.
\<close>

record env =
  NODE_ENV :: "string option"
  ToNumber :: "string \<Rightarrow> jsnum"
  hash_password :: "string \<Rightarrow> string"
  password_matches :: "string \<Rightarrow> string \<Rightarrow> bool"
  token_matches :: "string \<Rightarrow> string \<Rightarrow> bool"
  new_secret :: string
  db_fault :: "nat \<Rightarrow> bool"
  destroy_err :: bool
  new_id :: string
  Date_now :: nat
  cast_12 :: "string \<Rightarrow> string option"

subsection \<open>Session middleware options (lines 31-40)\<close>

text \<open>
  The options object passed to \<open>session(...)\<close>. A property the object does not have is
  \<open>None\<close>; express-session then applies its default, and its default for \<open>sameSite\<close>
  is to send no SameSite attribute.
\<close>

datatype same_site = Strict | Lax | NoRestriction

record cookie_options =
  httpOnly :: "bool option"
  secure :: "bool option"
  maxAge :: "nat option"
  sameSite :: "same_site option"

record session_options =
  resave :: bool
  saveUninitialized :: bool
  cookie :: cookie_options

definition session_config :: "env \<Rightarrow> session_options" where
  "session_config e =
     \<lparr> resave = False,
       saveUninitialized = False,
       cookie = \<lparr> httpOnly = Some True,
                  secure = Some (NODE_ENV e = Some ''production''),
                  maxAge = Some (1000 * 60 * 60),
                  sameSite = None \<rparr> \<rparr>"

subsection \<open>Documents and the state a request runs in\<close>

text \<open>
  Modelled from the spec: models/User.js is not among the sources. A User has an
  identifier, a unique username, a unique email and a password stored as a hash.
\<close>

record user =
  uid :: string
  username :: string
  email :: string
  password :: string

text \<open>
  Modelled from the spec: models/Review.js is not among the sources. A Review has an
  identifier, the reference to its user, a rating in [1,5], a non-empty comment and its
  creation time.
\<close>

record review =
  rid :: string
  review_user :: string
  rating :: rat
  comment :: string
  createdAt :: nat

text \<open>
  \<open>session_user\<close> is \<open>req.session.user\<close>: \<open>None\<close> until a signup or login writes it, and
  again after the session is destroyed.
\<close>

record state =
  users :: "user list"
  reviews :: "review list"
  session_user :: "jsobj option"

subsection \<open>Requests and responses\<close>

datatype http_method = GET | HEAD | OPTIONS | POST | PUT | PATCH | DELETE

record request =
  meth :: http_method
  path :: string
  body :: "(string \<times> string) list"
  query :: "(string \<times> string) list"
  headers :: "(string \<times> string) list"
  cookies :: "(string \<times> string) list"

definition field :: "request \<Rightarrow> string \<Rightarrow> string option" where
  "field req k = map_of (body req) k"

text \<open>
  The messages of server.js are Korean string literals; each distinct literal is one
  constructor, named by what it says. The same literal stands on lines 76, 110 and 149
  (\<open>AllFieldsRequired\<close>), and on lines 116 and 121 (\<open>InvalidCredentials\<close>).
\<close>

datatype message =
    FeedLoadError          \<comment> \<open>line 62\<close>
  | AllFieldsRequired      \<comment> \<open>lines 76, 110, 149\<close>
  | PasswordMismatch       \<comment> \<open>line 80\<close>
  | UserExists             \<comment> \<open>line 86\<close>
  | SignupError            \<comment> \<open>line 96\<close>
  | InvalidCredentials     \<comment> \<open>lines 116, 121\<close>
  | LoginError             \<comment> \<open>line 128\<close>
  | RatingOutOfRange       \<comment> \<open>line 153\<close>
  | ReviewSaveError        \<comment> \<open>line 166\<close>
  | ReviewNotFound         \<comment> \<open>line 177\<close>
  | DetailLoadError        \<comment> \<open>line 182\<close>

text \<open>The second argument of \<open>res.render\<close>.\<close>

datatype locals =
    Error "message option"
  | Reviews "(review \<times> user option) list"
  | OneReview "review \<times> user option"

text \<open>
  \<open>Render\<close>, \<open>Redirect\<close> and \<open>Send\<close> are \<open>res.render\<close>, \<open>res.redirect\<close> and \<open>res.send\<close>.
  \<open>Forbidden\<close> is the 403 that csurf raises; \<open>Unrouted\<close> is the router's own answer when
  no handler of server.js matches.
\<close>

datatype response =
    Render string locals
  | Redirect string
  | Send message
  | Forbidden
  | Unrouted

record outcome =
  reply :: response
  cleared :: "string list"
  final :: state

definition render :: "string \<Rightarrow> locals \<Rightarrow> state \<Rightarrow> outcome" where
  "render v l s = \<lparr> reply = Render v l, cleared = [], final = s \<rparr>"

definition redirect :: "string \<Rightarrow> state \<Rightarrow> outcome" where
  "redirect p s = \<lparr> reply = Redirect p, cleared = [], final = s \<rparr>"

definition send :: "message \<Rightarrow> state \<Rightarrow> outcome" where
  "send m s = \<lparr> reply = Send m, cleared = [], final = s \<rparr>"

subsection \<open>The two models\<close>

datatype db_error = DriverError | CastError | ValidationError | DuplicateKey

definition User_findOne :: "env \<Rightarrow> nat \<Rightarrow> (user \<Rightarrow> bool) \<Rightarrow> state \<Rightarrow> db_error + user option" where
  "User_findOne e n q s = (if db_fault e n then Inl DriverError else Inr (find q (users s)))"

text \<open>
  Modelled from the spec: \<open>new User({username, email, password})\<close> followed by \<open>save()\<close>.
  The password is stored hashed, and the store refuses a second user with the same
  username or email.
\<close>

definition User_save :: "env \<Rightarrow> nat \<Rightarrow> string \<Rightarrow> string \<Rightarrow> string \<Rightarrow> state \<Rightarrow> db_error + user \<times> state" where
  "User_save e n name mail pw s =
     (if db_fault e n then Inl DriverError
      else if list_ex (\<lambda>u. username u = name \<or> email u = mail) (users s) then Inl DuplicateKey
      else
        let u = \<lparr> uid = new_id e, username = name, email = mail,
                  password = hash_password e pw \<rparr>
        in Inr (u, s\<lparr> users := users s @ [u] \<rparr>))"

text \<open>
  Modelled from the spec: \<open>user.comparePassword(candidate)\<close> of models/User.js, which
  verifies the candidate against the stored hash.
\<close>

definition comparePassword :: "env \<Rightarrow> nat \<Rightarrow> user \<Rightarrow> string \<Rightarrow> db_error + bool" where
  "comparePassword e n u candidate =
     (if db_fault e n then Inl DriverError
      else Inr (password_matches e candidate (password u)))"

text \<open>\<open>populate('user')\<close>: the review with its user resolved, \<open>None\<close> when there is none.\<close>

definition populate :: "state \<Rightarrow> review \<Rightarrow> review \<times> user option" where
  "populate s r = (r, find (\<lambda>u. uid u = review_user r) (users s))"

text \<open>\<open>Review.find().populate('user').sort({createdAt: -1})\<close>.\<close>

definition Review_find_sorted :: "env \<Rightarrow> nat \<Rightarrow> state \<Rightarrow> db_error + (review \<times> user option) list" where
  "Review_find_sorted e n s =
     (if db_fault e n then Inl DriverError
      else Inr (map (populate s) (rev (sort_key createdAt (reviews s)))))"

text \<open>
  A Mongoose schema that declares no \<open>_id\<close> of its own has an ObjectId, and a query by
  \<open>_id\<close> first casts the given string to one. A string of 24 hexadecimal digits is an
  ObjectId, written in lower case; a 12-character string is left to the driver
  (\<open>cast_12\<close>); every other string cannot be cast.
\<close>

definition hex_digit :: "char \<Rightarrow> bool" where
  "hex_digit c =
     (let n = (of_char c :: nat)
      in (48 \<le> n \<and> n \<le> 57) \<or> (65 \<le> n \<and> n \<le> 70) \<or> (97 \<le> n \<and> n \<le> 102))"

definition lower_hex :: "char \<Rightarrow> char" where
  "lower_hex c =
     (let n = (of_char c :: nat) in if 65 \<le> n \<and> n \<le> 70 then char_of (n + 32) else c)"

definition is_object_id :: "string \<Rightarrow> bool" where
  "is_object_id i = (length i = 24 \<and> list_all hex_digit i)"

definition ObjectId_cast :: "env \<Rightarrow> string \<Rightarrow> string option" where
  "ObjectId_cast e i =
     (if is_object_id i then Some (map lower_hex i)
      else if length i = 12 then cast_12 e i
      else None)"

text \<open>
  \<open>Review.findById(id).populate('user')\<close>. The query rejects with a CastError when the
  identifier cannot be cast, and otherwise answers with the review of that ObjectId or
  with null.
\<close>

definition Review_findById :: "env \<Rightarrow> nat \<Rightarrow> string \<Rightarrow> state \<Rightarrow> db_error + (review \<times> user option) option" where
  "Review_findById e n i s =
     (if db_fault e n then Inl DriverError
      else
        case ObjectId_cast e i of
          None \<Rightarrow> Inl CastError
        | Some oid \<Rightarrow> Inr (map_option (populate s) (find (\<lambda>r. rid r = oid) (reviews s))))"

text \<open>
  Modelled from the spec: \<open>new Review({user, rating, comment})\<close> followed by \<open>save()\<close>.
  The schema requires the user reference, a rating that is a number within [1,5] and a
  non-empty comment; a document that fails it is not stored and \<open>save\<close> rejects.
\<close>

definition Review_save :: "env \<Rightarrow> nat \<Rightarrow> string option \<Rightarrow> string \<Rightarrow> string \<Rightarrow> state \<Rightarrow> db_error + state" where
  "Review_save e n usr rt cm s =
     (if db_fault e n then Inl DriverError
      else
        case (usr, ToNumber e rt) of
          (Some u, Fin q) \<Rightarrow>
            if 1 \<le> q \<and> q \<le> 5 \<and> cm \<noteq> []
            then Inr (s\<lparr> reviews := reviews s @
                   [\<lparr> rid = new_id e, review_user = u, rating = q, comment = cm,
                      createdAt = Date_now e \<rparr>] \<rparr>)
            else Inl ValidationError
        | _ \<Rightarrow> Inl ValidationError)"

subsection \<open>Route handlers\<close>

text \<open>Lines 56-64.\<close>

definition get_index :: "env \<Rightarrow> state \<Rightarrow> outcome" where
  "get_index e s =
     (case Review_find_sorted e 0 s of
        Inr rs \<Rightarrow> render ''index'' (Reviews rs) s
      | Inl err \<Rightarrow> send FeedLoadError s)"

text \<open>Lines 67-69.\<close>

definition get_signup :: "state \<Rightarrow> outcome" where
  "get_signup s = render ''signup'' (Error None) s"

text \<open>The object written to \<open>req.session.user\<close> on lines 92 and 124.\<close>

definition identity :: "user \<Rightarrow> jsobj" where
  "identity u = [(''id'', uid u), (''username'', username u), (''email'', email u)]"

text \<open>Lines 72-98.\<close>

definition post_signup :: "env \<Rightarrow> request \<Rightarrow> state \<Rightarrow> outcome" where
  "post_signup e req s =
     (let name = field req ''username''; mail = field req ''email'';
          pw = field req ''password''; confirmPassword = field req ''confirmPassword''
      in
        if \<not> truthy name \<or> \<not> truthy mail \<or> \<not> truthy pw \<or> \<not> truthy confirmPassword
        then render ''signup'' (Error (Some AllFieldsRequired)) s
        else if pw \<noteq> confirmPassword
        then render ''signup'' (Error (Some PasswordMismatch)) s
        else
          case User_findOne e 0
                 (\<lambda>u. email u = str_of mail \<or> username u = str_of name) s of
            Inl err \<Rightarrow> render ''signup'' (Error (Some SignupError)) s
          | Inr (Some existingUser) \<Rightarrow> render ''signup'' (Error (Some UserExists)) s
          | Inr None \<Rightarrow>
              (case User_save e 1 (str_of name) (str_of mail) (str_of pw) s of
                 Inl err \<Rightarrow> render ''signup'' (Error (Some SignupError)) s
               | Inr (u, s') \<Rightarrow> redirect ''/'' (s'\<lparr> session_user := Some (identity u) \<rparr>)))"

text \<open>Lines 101-103.\<close>

definition get_login :: "state \<Rightarrow> outcome" where
  "get_login s = render ''login'' (Error None) s"

text \<open>Lines 106-130.\<close>

definition post_login :: "env \<Rightarrow> request \<Rightarrow> state \<Rightarrow> outcome" where
  "post_login e req s =
     (let mail = field req ''email''; pw = field req ''password''
      in
        if \<not> truthy mail \<or> \<not> truthy pw
        then render ''login'' (Error (Some AllFieldsRequired)) s
        else
          case User_findOne e 0 (\<lambda>u. email u = str_of mail) s of
            Inl err \<Rightarrow> render ''login'' (Error (Some LoginError)) s
          | Inr None \<Rightarrow> render ''login'' (Error (Some InvalidCredentials)) s
          | Inr (Some u) \<Rightarrow>
              (case comparePassword e 1 u (str_of pw) of
                 Inl err \<Rightarrow> render ''login'' (Error (Some LoginError)) s
               | Inr isMatch \<Rightarrow>
                   if \<not> isMatch
                   then render ''login'' (Error (Some InvalidCredentials)) s
                   else redirect ''/'' (s\<lparr> session_user := Some (identity u) \<rparr>)))"

text \<open>Lines 133-138.\<close>

definition get_reviews_new :: "state \<Rightarrow> outcome" where
  "get_reviews_new s =
     (if session_user s = None then redirect ''/login'' s
      else render ''new'' (Error None) s)"

text \<open>Lines 141-168. \<open>comment.trim()\<close> is evaluated before the document is built.\<close>

definition post_reviews_new :: "env \<Rightarrow> request \<Rightarrow> state \<Rightarrow> outcome" where
  "post_reviews_new e req s =
     (case session_user s of
        None \<Rightarrow> redirect ''/login'' s
      | Some su \<Rightarrow>
          (let rt = field req ''rating''; cm = field req ''comment''
           in
             if \<not> truthy rt \<or> \<not> truthy cm
             then render ''new'' (Error (Some AllFieldsRequired)) s
             else if js_lt (ToNumber e (str_of rt)) (Fin 1) \<or> js_gt (ToNumber e (str_of rt)) (Fin 5)
             then render ''new'' (Error (Some RatingOutOfRange)) s
             else
               (case Review_save e 0 (map_of su ''id'') (str_of rt) (trim (str_of cm)) s of
                  Inr s' \<Rightarrow> redirect ''/'' s'
                | Inl err \<Rightarrow> render ''new'' (Error (Some ReviewSaveError)) s)))"

text \<open>Lines 171-184.\<close>

definition get_review :: "env \<Rightarrow> string \<Rightarrow> state \<Rightarrow> outcome" where
  "get_review e reviewId s =
     (case Review_findById e 0 reviewId s of
        Inl err \<Rightarrow> send DetailLoadError s
      | Inr None \<Rightarrow> send ReviewNotFound s
      | Inr (Some r) \<Rightarrow> render ''detail'' (OneReview r) s)"

text \<open>
  Lines 187-195. \<open>req.session.destroy\<close> removes the session from the store and calls
  back; when the store reports an error the session is taken to be still there.
\<close>

definition session_destroy :: "env \<Rightarrow> state \<Rightarrow> bool \<times> state" where
  "session_destroy e s =
     (if destroy_err e then (True, s) else (False, s\<lparr> session_user := None \<rparr>))"

definition get_logout :: "env \<Rightarrow> state \<Rightarrow> outcome" where
  "get_logout e s =
     (case session_destroy e s of
        (err, s') \<Rightarrow>
          if err then redirect ''/'' s'
          else \<lparr> reply = Redirect ''/login'', cleared = [''connect.sid''], final = s' \<rparr>)"

subsection \<open>The middleware chain and the router\<close>

text \<open>
  csurf (line 42, \<open>cookie: true\<close>): the secret is the \<open>_csrf\<close> cookie, or a fresh one
  when the cookie is missing or empty; the token is the first non-empty of the form
  field \<open>_csrf\<close>, the query parameter \<open>_csrf\<close> and four headers. A request whose method
  is GET, HEAD or OPTIONS is not checked.
\<close>

definition csrf_secret :: "env \<Rightarrow> request \<Rightarrow> string" where
  "csrf_secret e req =
     (let c = map_of (cookies req) ''_csrf'' in if truthy c then str_of c else new_secret e)"

definition csrf_value :: "request \<Rightarrow> string option" where
  "csrf_value req =
     (case find truthy
        [map_of (body req) ''_csrf'', map_of (query req) ''_csrf'',
         map_of (headers req) ''csrf-token'', map_of (headers req) ''xsrf-token'',
         map_of (headers req) ''x-csrf-token'', map_of (headers req) ''x-xsrf-token''] of
        None \<Rightarrow> None
      | Some v \<Rightarrow> v)"

definition ignored_method :: "http_method \<Rightarrow> bool" where
  "ignored_method m = (m = GET \<or> m = HEAD \<or> m = OPTIONS)"

definition csrf_passes :: "env \<Rightarrow> request \<Rightarrow> bool" where
  "csrf_passes e req =
     (ignored_method (meth req) \<or>
      (case csrf_value req of
         None \<Rightarrow> False
       | Some t \<Rightarrow> token_matches e (csrf_secret e req) t))"

text \<open>
  \<open>/reviews/:id\<close> matches one non-empty path segment after \<open>/reviews/\<close>. Paths are taken
  as written in server.js (Express also accepts other letter case and a trailing slash).
\<close>

definition review_param :: "string \<Rightarrow> string option" where
  "review_param p =
     (if take 9 p = ''/reviews/'' \<and> drop 9 p \<noteq> [] \<and> CHR ''/'' \<notin> set (drop 9 p)
      then Some (drop 9 p) else None)"

text \<open>
  The routes in the order of server.js, so that \<open>/reviews/new\<close> is tried before
  \<open>/reviews/:id\<close>. Express answers a HEAD request with the GET handler.
\<close>

definition route :: "env \<Rightarrow> request \<Rightarrow> state \<Rightarrow> outcome" where
  "route e req s =
     (let m = (if meth req = HEAD then GET else meth req); p = path req
      in
        if m = GET \<and> p = ''/'' then get_index e s
        else if m = GET \<and> p = ''/signup'' then get_signup s
        else if m = POST \<and> p = ''/signup'' then post_signup e req s
        else if m = GET \<and> p = ''/login'' then get_login s
        else if m = POST \<and> p = ''/login'' then post_login e req s
        else if m = GET \<and> p = ''/reviews/new'' then get_reviews_new s
        else if m = POST \<and> p = ''/reviews/new'' then post_reviews_new e req s
        else if m = GET \<and> review_param p \<noteq> None then get_review e (the (review_param p)) s
        else if m = GET \<and> p = ''/logout'' then get_logout e s
        else \<lparr> reply = Unrouted, cleared = [], final = s \<rparr>)"

text \<open>Lines 29-51 in front of the routes: a request the CSRF guard refuses stops there.\<close>

definition app :: "env \<Rightarrow> request \<Rightarrow> state \<Rightarrow> outcome" where
  "app e req s =
     (if csrf_passes e req then route e req s
      else \<lparr> reply = Forbidden, cleared = [], final = s \<rparr>)"

subsection \<open>A concrete environment, for running the handlers\<close>

text \<open>
  \<open>decimal\<close> reads an unsigned decimal integer and the empty string as JavaScript does;
  every other string is NaN here. The toy hash reverses the password. The sample users
  and reviews carry short names as identifiers; \<open>absent_id\<close> is a well-formed ObjectId
  that no sample review has.
\<close>

definition digit_of :: "char \<Rightarrow> nat option" where
  "digit_of c = (let n = (of_char c :: nat) in if 48 \<le> n \<and> n \<le> 57 then Some (n - 48) else None)"

definition decimal :: "string \<Rightarrow> jsnum" where
  "decimal s =
     (if list_all (\<lambda>c. digit_of c \<noteq> None) s
      then Fin (of_nat (foldl (\<lambda>a c. 10 * a + the (digit_of c)) 0 s))
      else NaN)"

definition env0 :: env where
  "env0 = \<lparr> NODE_ENV = Some ''production'', ToNumber = decimal, hash_password = rev,
            password_matches = (\<lambda>pw h. rev pw = h), token_matches = (\<lambda>sec t. sec = t),
            new_secret = ''s3cr3t'', db_fault = (\<lambda>n. False), destroy_err = False,
            new_id = ''id9'', Date_now = 1000, cast_12 = (\<lambda>i. None) \<rparr>"

definition ann :: user where
  "ann = \<lparr> uid = ''id1'', username = ''ann'', email = ''a@x.com'', password = ''1wp'' \<rparr>"

definition state0 :: state where
  "state0 = \<lparr> users = [ann], reviews = [], session_user = None \<rparr>"

definition state1 :: state where
  "state1 = state0\<lparr> session_user := Some (identity ann) \<rparr>"

definition form :: "http_method \<Rightarrow> string \<Rightarrow> (string \<times> string) list \<Rightarrow> request" where
  "form m p b = \<lparr> meth = m, path = p, body = b, query = [], headers = [], cookies = [] \<rparr>"


definition rating6 :: request where
  "rating6 = form POST ''/reviews/new'' [(''rating'', ''6''), (''comment'', ''hi'')]"

definition rating4 :: request where
  "rating4 = form POST ''/reviews/new'' [(''rating'', ''4''), (''comment'', '' hi '')]"

definition blank_comment :: request where
  "blank_comment = form POST ''/reviews/new'' [(''rating'', ''4''), (''comment'', ''  '')]"

definition no_token :: request where
  "no_token = form POST ''/reviews/new'' [(''rating'', ''4''), (''comment'', ''hi'')]"

definition with_token :: request where
  "with_token = form POST ''/reviews/new''
     [(''rating'', ''4''), (''comment'', ''hi''), (''_csrf'', ''s3cr3t'')]"

definition signup_again :: request where
  "signup_again = form POST ''/signup''
     [(''username'', ''bob''), (''email'', ''a@x.com''), (''password'', ''pw2''),
      (''confirmPassword'', ''pw2'')]"


definition wrong_password :: request where
  "wrong_password = form POST ''/login'' [(''email'', ''a@x.com''), (''password'', ''nope'')]"

definition unknown_email :: request where
  "unknown_email = form POST ''/login'' [(''email'', ''z@x.com''), (''password'', ''pw1'')]"

definition good_login :: request where
  "good_login = form POST ''/login'' [(''email'', ''a@x.com''), (''password'', ''pw1'')]"

definition older :: review where
  "older = \<lparr> rid = ''r1'', review_user = ''id1'', rating = 3, comment = ''ok'',
             createdAt = 10 \<rparr>"

definition newer :: review where
  "newer = \<lparr> rid = ''r2'', review_user = ''id1'', rating = 5, comment = ''good'',
             createdAt = 20 \<rparr>"


definition state2 :: state where
  "state2 = state0\<lparr> reviews := [older, newer] \<rparr>"

subsection \<open>The conditions the specification names\<close>

text \<open>
  What the specification asks of a review submission: a rating that is a number within
  [1,5] and a comment that is not empty once trimmed.
\<close>

definition valid_submission :: "env \<Rightarrow> request \<Rightarrow> bool" where
  "valid_submission e req =
     (case (field req ''rating'', field req ''comment'') of
        (Some rt, Some cm) \<Rightarrow>
          (case ToNumber e rt of Fin q \<Rightarrow> 1 \<le> q \<and> q \<le> 5 | _ \<Rightarrow> False) \<and> trim cm \<noteq> []
      | _ \<Rightarrow> False)"


section \<open>Properties\<close>

lemmas out_defs = render_def redirect_def send_def

lemmas run_defs = env0_def form_def state1_def state0_def ann_def identity_def field_def
  truthy_def decimal_def digit_of_def js_gt_def trim_def is_ws_def out_defs

lemma find_Some_ex: "\<exists>x\<in>set xs. P x \<Longrightarrow> \<exists>y. find P xs = Some y"
  by (cases "find P xs") (auto simp: find_None_iff)

subsection \<open>Review submission\<close>

lemma review_created_or_not:
  "reviews (final (post_reviews_new e req s)) = reviews s \<or>
   (\<exists>r. reviews (final (post_reviews_new e req s)) = reviews s @ [r]
      \<and> 1 \<le> rating r \<and> rating r \<le> 5
      \<and> ToNumber e (str_of (field req ''rating'')) = Fin (rating r)
      \<and> comment r = trim (str_of (field req ''comment'')) \<and> comment r \<noteq> []
      \<and> reply (post_reviews_new e req s) = Redirect ''/'')"
  unfolding post_reviews_new_def Review_save_def
  by (auto simp: out_defs Let_def truthy_def
      split: option.splits sum.splits jsnum.splits if_splits)

lemma invalid_submission_state:
  "\<not> valid_submission e req \<Longrightarrow> final (post_reviews_new e req s) = s"
  unfolding post_reviews_new_def Review_save_def valid_submission_def
  by (auto simp: out_defs Let_def truthy_def
      split: option.splits sum.splits jsnum.splits if_splits)

lemma invalid_submission_reply:
  "\<not> valid_submission e req \<Longrightarrow> session_user s \<noteq> None \<Longrightarrow>
     \<exists>m. reply (post_reviews_new e req s) = Render ''new'' (Error (Some m))"
  unfolding post_reviews_new_def Review_save_def valid_submission_def
  by (auto simp: out_defs Let_def truthy_def
      split: option.splits sum.splits jsnum.splits if_splits)

text \<open>
  C1. POST /reviews/new either leaves the reviews as they were or appends exactly one
  review, and an appended review has a rating between 1 and 5 (the number the submitted
  rating converts to) and the trimmed submitted comment, which is not empty; the reply
  is then the redirect to the feed. A submission whose rating is not a number within
  [1,5], or whose comment is missing or empty once trimmed, changes nothing, and for a
  logged-in user the compose form is rendered again with an error.
\<close>

theorem review_submission_validated:
  "(reviews (final (post_reviews_new e req s)) = reviews s \<or>
    (\<exists>r. reviews (final (post_reviews_new e req s)) = reviews s @ [r]
       \<and> 1 \<le> rating r \<and> rating r \<le> 5
       \<and> ToNumber e (str_of (field req ''rating'')) = Fin (rating r)
       \<and> comment r = trim (str_of (field req ''comment'')) \<and> comment r \<noteq> []
       \<and> reply (post_reviews_new e req s) = Redirect ''/''))
   \<and> (\<not> valid_submission e req \<longrightarrow>
        final (post_reviews_new e req s) = s
        \<and> (session_user s \<noteq> None \<longrightarrow>
             (\<exists>m. reply (post_reviews_new e req s) = Render ''new'' (Error (Some m)))))"
  using review_created_or_not [of e req s] invalid_submission_state [of e req s]
    invalid_submission_reply [of e req s]
  by blast

text \<open>
  C1 on concrete submissions by a logged-in user: rating 6 and a blank comment are both
  refused with nothing stored; rating 4 with comment \<open>" hi "\<close> is stored trimmed.
\<close>

theorem review_submission_validated_witness:
  "\<not> valid_submission env0 rating6 \<and> session_user state1 \<noteq> None
   \<and> reply (post_reviews_new env0 rating6 state1) = Render ''new'' (Error (Some RatingOutOfRange))
   \<and> final (post_reviews_new env0 rating6 state1) = state1
   \<and> \<not> valid_submission env0 blank_comment
   \<and> reply (post_reviews_new env0 blank_comment state1)
       = Render ''new'' (Error (Some ReviewSaveError))
   \<and> final (post_reviews_new env0 blank_comment state1) = state1
   \<and> reviews (final (post_reviews_new env0 rating4 state1))
       = [\<lparr> rid = ''id9'', review_user = ''id1'', rating = 4, comment = ''hi'',
            createdAt = 1000 \<rparr>]"
proof -
  have six: "\<not> valid_submission env0 rating6"
    by (simp add: valid_submission_def rating6_def run_defs)
  have blank: "\<not> valid_submission env0 blank_comment"
    by (simp add: valid_submission_def blank_comment_def run_defs)
  have auth: "session_user state1 \<noteq> None"
    by (simp add: state1_def)
  have r6: "reply (post_reviews_new env0 rating6 state1)
      = Render ''new'' (Error (Some RatingOutOfRange))"
    by (simp add: post_reviews_new_def rating6_def run_defs)
  have rb: "reply (post_reviews_new env0 blank_comment state1)
      = Render ''new'' (Error (Some ReviewSaveError))"
    by (simp add: post_reviews_new_def Review_save_def blank_comment_def run_defs)
  have r4: "reviews (final (post_reviews_new env0 rating4 state1))
      = [\<lparr> rid = ''id9'', review_user = ''id1'', rating = 4, comment = ''hi'',
           createdAt = 1000 \<rparr>]"
    by (simp add: post_reviews_new_def Review_save_def rating4_def run_defs)
  have f6: "final (post_reviews_new env0 rating6 state1) = state1"
    using review_submission_validated [of env0 rating6 state1] six by blast
  have fb: "final (post_reviews_new env0 blank_comment state1) = state1"
    using review_submission_validated [of env0 blank_comment state1] blank by blast
  from six blank auth r6 rb r4 f6 fb show ?thesis by blast
qed

subsection \<open>Logout\<close>

text \<open>
  C2, as the code has it. GET /logout asks the session store to destroy the session.
  When the store reports no error, the session is gone, and the handler clears the
  cookie \<open>connect.sid\<close> and redirects to /login, whether or not anybody was logged in.
  When the store reports an error, the handler redirects to the feed \<open>/\<close> and clears no
  cookie. Users and reviews are untouched either way.
\<close>

theorem logout_outcome:
  "(\<not> destroy_err e \<longrightarrow>
      reply (get_logout e s) = Redirect ''/login''
      \<and> cleared (get_logout e s) = [''connect.sid'']
      \<and> final (get_logout e s) = s\<lparr> session_user := None \<rparr>)
   \<and> (destroy_err e \<longrightarrow>
      reply (get_logout e s) = Redirect ''/''
      \<and> cleared (get_logout e s) = []
      \<and> users (final (get_logout e s)) = users s
      \<and> reviews (final (get_logout e s)) = reviews s)"
  by (simp add: get_logout_def session_destroy_def redirect_def)

text \<open>
  C2 on concrete input: logging out with nobody logged in redirects to /login and
  leaves the state as it was; logging out a logged-in user empties the session; when
  the store reports an error the reply is the redirect to \<open>/\<close>.
\<close>

theorem logout_outcome_witness:
  "\<not> destroy_err env0 \<and> session_user state0 = None
   \<and> reply (get_logout env0 state0) = Redirect ''/login''
   \<and> cleared (get_logout env0 state0) = [''connect.sid'']
   \<and> final (get_logout env0 state0) = state0
   \<and> session_user (final (get_logout env0 state1)) = None
   \<and> destroy_err (env0\<lparr> destroy_err := True \<rparr>)
   \<and> reply (get_logout (env0\<lparr> destroy_err := True \<rparr>) state0) = Redirect ''/''
   \<and> users (final (get_logout (env0\<lparr> destroy_err := True \<rparr>) state0)) = [ann]"
proof -
  have ok: "\<not> destroy_err env0" by (simp add: env0_def)
  have bad: "destroy_err (env0\<lparr> destroy_err := True \<rparr>)" by simp
  have none: "session_user state0 = None" "state0\<lparr> session_user := None \<rparr> = state0"
    "users state0 = [ann]"
    by (simp_all add: state0_def)
  from logout_outcome [of env0 state0] logout_outcome [of env0 state1]
    logout_outcome [of "env0\<lparr> destroy_err := True \<rparr>" state0] ok bad none
  show ?thesis by simp
qed

text \<open>
  C2 as stated promises the redirect to the login page also when destruction reports an
  error: there the handler answers with a redirect to \<open>/\<close> and clears no cookie.
\<close>

theorem logout_error_redirects_to_feed:
  "reply (get_logout (env0\<lparr> destroy_err := True \<rparr>) state1) = Redirect ''/''
   \<and> cleared (get_logout (env0\<lparr> destroy_err := True \<rparr>) state1) = []"
  by (simp add: get_logout_def session_destroy_def redirect_def)

subsection \<open>Session cookie\<close>

text \<open>
  C3, as the code has it. The session cookie is configured HTTP-only with a maximum
  age of one hour, and secure exactly when \<open>NODE_ENV\<close> is \<open>production\<close>; the options
  name no SameSite attribute.
\<close>

theorem session_cookie_options:
  "httpOnly (cookie (session_config e)) = Some True
   \<and> secure (cookie (session_config e)) = Some (NODE_ENV e = Some ''production'')
   \<and> maxAge (cookie (session_config e)) = Some 3600000
   \<and> sameSite (cookie (session_config e)) = None"
  by (simp add: session_config_def)

text \<open>
  C3 as stated asks for a same-site cookie: in production the options still carry no
  SameSite setting.
\<close>

theorem session_cookie_not_same_site:
  "NODE_ENV env0 = Some ''production'' \<and> sameSite (cookie (session_config env0)) = None"
  by (simp add: session_config_def env0_def)

subsection \<open>Signup with a taken email or username\<close>

lemma signup_existing:
  assumes "find (\<lambda>u. email u = str_of (field req ''email'')
                     \<or> username u = str_of (field req ''username'')) (users s) = Some y"
  shows "\<exists>m. post_signup e req s = render ''signup'' (Error (Some m)) s"
proof -
  consider (missing) "\<not> truthy (field req ''username'') \<or> \<not> truthy (field req ''email'')
           \<or> \<not> truthy (field req ''password'') \<or> \<not> truthy (field req ''confirmPassword'')"
    | (mismatch) "\<not> (\<not> truthy (field req ''username'') \<or> \<not> truthy (field req ''email'')
           \<or> \<not> truthy (field req ''password'') \<or> \<not> truthy (field req ''confirmPassword''))"
         "field req ''password'' \<noteq> field req ''confirmPassword''"
    | (lookup) "\<not> (\<not> truthy (field req ''username'') \<or> \<not> truthy (field req ''email'')
           \<or> \<not> truthy (field req ''password'') \<or> \<not> truthy (field req ''confirmPassword''))"
         "field req ''password'' = field req ''confirmPassword''"
    by blast
  then show ?thesis
  proof cases
    case missing
    then have "post_signup e req s = render ''signup'' (Error (Some AllFieldsRequired)) s"
      unfolding post_signup_def Let_def by (simp only: if_True if_False simp_thms)
    then show ?thesis by blast
  next
    case mismatch
    then have "post_signup e req s = render ''signup'' (Error (Some PasswordMismatch)) s"
      unfolding post_signup_def Let_def by (simp only: if_True if_False simp_thms)
    then show ?thesis by blast
  next
    case lookup
    show ?thesis
    proof (cases "db_fault e 0")
      case True
      with lookup have "post_signup e req s = render ''signup'' (Error (Some SignupError)) s"
        unfolding post_signup_def Let_def User_findOne_def
        by (simp only: if_True if_False sum.case simp_thms)
      then show ?thesis by blast
    next
      case False
      with lookup assms
      have "post_signup e req s = render ''signup'' (Error (Some UserExists)) s"
        unfolding post_signup_def Let_def User_findOne_def
        by (simp only: if_True if_False sum.case option.case simp_thms)
      then show ?thesis by blast
    qed
  qed
qed

text \<open>
  C4. When the submitted email or the submitted username is that of a stored user,
  POST /signup renders the signup form again with an error and leaves the whole state
  as it was: no user is added, the stored users are unchanged and no session is
  established. The same holds for the request taken through the middleware chain.
\<close>

theorem duplicate_signup_rejected:
  assumes "\<exists>u\<in>set (users s). field req ''email'' = Some (email u)
                              \<or> field req ''username'' = Some (username u)"
  shows "(\<exists>m. reply (post_signup e req s) = Render ''signup'' (Error (Some m)))
         \<and> final (post_signup e req s) = s
         \<and> (meth req = POST \<and> path req = ''/signup'' \<longrightarrow> final (app e req s) = s)"
proof -
  let ?q = "\<lambda>u. email u = str_of (field req ''email'')
                \<or> username u = str_of (field req ''username'')"
  from assms obtain u where u: "u \<in> set (users s)"
     "field req ''email'' = Some (email u) \<or> field req ''username'' = Some (username u)"
    by blast
  from u(2) have "?q u" by (elim disjE) simp_all
  with u(1) have "\<exists>u\<in>set (users s). ?q u" by blast
  then obtain y where "find ?q (users s) = Some y"
    by (rule exE [OF find_Some_ex])
  then obtain m where m: "post_signup e req s = render ''signup'' (Error (Some m)) s"
    by (rule exE [OF signup_existing])
  then have "final (post_signup e req s) = s" by (simp add: render_def)
  then have "meth req = POST \<and> path req = ''/signup'' \<longrightarrow> final (app e req s) = s"
    by (simp add: app_def route_def)
  with m show ?thesis by (simp add: render_def)
qed

text \<open>
  C4 on concrete input: ann is registered with a@x.com, and a signup as bob with the
  same email is refused with the user-exists error.
\<close>

theorem duplicate_signup_rejected_witness:
  "reply (post_signup env0 signup_again state0) = Render ''signup'' (Error (Some UserExists))
   \<and> final (post_signup env0 signup_again state0) = state0
   \<and> users state0 = [ann] \<and> field signup_again ''email'' = Some (email ann)"
proof -
  have dup: "\<exists>u\<in>set (users state0). field signup_again ''email'' = Some (email u)
               \<or> field signup_again ''username'' = Some (username u)"
    by (simp add: signup_again_def state0_def ann_def form_def field_def)
  have a: "users state0 = [ann]" "field signup_again ''email'' = Some (email ann)"
    by (simp_all add: signup_again_def state0_def ann_def form_def field_def)
  have r: "reply (post_signup env0 signup_again state0)
      = Render ''signup'' (Error (Some UserExists))"
    by (simp add: post_signup_def User_findOne_def signup_again_def run_defs)
  from duplicate_signup_rejected [OF dup, of env0]
  have "final (post_signup env0 signup_again state0) = state0" by blast
  with a r show ?thesis by blast
qed

subsection \<open>Composing and submitting a review without a session\<close>

text \<open>
  C5. Without an authenticated session, the handlers of GET /reviews/new and of POST
  /reviews/new answer with a redirect to /login and leave the state as it was, whatever
  the body holds. Taken through the middleware chain, the request never changes the
  state, and it is answered by that redirect whenever it reaches the handler.
\<close>

theorem unauthenticated_review_redirect:
  assumes "session_user s = None"
  shows "reply (get_reviews_new s) = Redirect ''/login'' \<and> final (get_reviews_new s) = s
       \<and> reply (post_reviews_new e req s) = Redirect ''/login''
       \<and> final (post_reviews_new e req s) = s
       \<and> (path req = ''/reviews/new'' \<and> (meth req = GET \<or> meth req = POST) \<longrightarrow>
            final (app e req s) = s
            \<and> (csrf_passes e req \<longrightarrow> reply (app e req s) = Redirect ''/login''))"
  using assms
  by (auto simp add: get_reviews_new_def post_reviews_new_def redirect_def app_def route_def)

text \<open>
  C5 on concrete input: with nobody logged in, a well-formed review submission is
  redirected to /login and no review is stored.
\<close>

theorem unauthenticated_review_redirect_witness:
  "session_user state0 = None
   \<and> reply (post_reviews_new env0 rating4 state0) = Redirect ''/login''
   \<and> reviews (final (post_reviews_new env0 rating4 state0)) = []
   \<and> reply (get_reviews_new state0) = Redirect ''/login''
   \<and> csrf_passes env0 with_token
   \<and> reply (app env0 with_token state0) = Redirect ''/login''
   \<and> final (app env0 with_token state0) = state0"
proof -
  have anon: "session_user state0 = None" "reviews state0 = []"
    by (simp_all add: state0_def)
  have p: "path with_token = ''/reviews/new''" "meth with_token = POST"
    by (simp_all add: with_token_def form_def)
  have c: "csrf_passes env0 with_token"
    by (simp add: csrf_passes_def csrf_value_def csrf_secret_def ignored_method_def
        with_token_def run_defs)
  from unauthenticated_review_redirect [OF anon(1), of env0 rating4]
    unauthenticated_review_redirect [OF anon(1), of env0 with_token] anon p c
  show ?thesis by simp
qed

subsection \<open>Feed order\<close>

lemma sorted_desc_nth:
  assumes "sorted_wrt (\<lambda>a b. f b \<le> (f a :: nat)) xs" "i < length xs" "j < length xs"
    "f (xs ! j) < f (xs ! i)"
  shows "i < j"
proof (rule ccontr)
  assume "\<not> i < j"
  then have "j < i \<or> j = i" by auto
  then show False
  proof
    assume "j < i"
    with assms(1,2) have "f (xs ! i) \<le> f (xs ! j)" by (simp add: sorted_wrt_iff_nth_less)
    with assms(4) show False by simp
  next
    assume "j = i" with assms(4) show False by simp
  qed
qed

lemma sort_desc: "sorted_wrt (\<lambda>a b. f b \<le> (f a :: nat)) (rev (sort_key f xs))"
proof -
  have "sorted (map f (sort_key f xs))" by simp
  then have "sorted_wrt (\<lambda>a b. f a \<le> f b) (sort_key f xs)" by (simp add: sorted_wrt_map)
  then show ?thesis by (simp add: sorted_wrt_rev)
qed

text \<open>
  C6. When the store answers, GET / renders the view \<open>index\<close> with a feed that holds
  exactly the stored reviews, and a review created after another one stands before it:
  at positions \<open>i\<close> and \<open>j\<close>, if the review at \<open>i\<close> is the newer one then \<open>i < j\<close>.
\<close>

theorem feed_newest_first:
  assumes "\<not> db_fault e 0"
  shows "\<exists>feed. reply (get_index e s) = Render ''index'' (Reviews feed)
           \<and> mset (map fst feed) = mset (reviews s)
           \<and> (\<forall>i j. i < length feed \<and> j < length feed
                  \<and> createdAt (fst (feed ! j)) < createdAt (fst (feed ! i)) \<longrightarrow> i < j)"
proof -
  let ?rs = "rev (sort_key createdAt (reviews s))"
  let ?feed = "map (populate s) ?rs"
  have fst: "map fst ?feed = ?rs" by (simp add: populate_def comp_def)
  have r: "reply (get_index e s) = Render ''index'' (Reviews ?feed)"
    using assms by (simp add: get_index_def Review_find_sorted_def render_def)
  have m: "mset (map fst ?feed) = mset (reviews s)" unfolding fst by simp
  have o: "i < j" if "i < length ?feed" "j < length ?feed"
      "createdAt (fst (?feed ! j)) < createdAt (fst (?feed ! i))" for i j
  proof -
    from that have "i < length ?rs" "j < length ?rs" by simp_all
    moreover from that have "createdAt (?rs ! j) < createdAt (?rs ! i)"
      by (simp add: populate_def)
    ultimately show ?thesis using sorted_desc_nth [OF sort_desc] by blast
  qed
  show ?thesis using r m o by blast
qed

text \<open>
  C6 on concrete input: the store holds an older review before a newer one, and the
  feed lists the newer one first.
\<close>

theorem feed_newest_first_witness:
  "\<not> db_fault env0 0
   \<and> reply (get_index env0 state2)
       = Render ''index'' (Reviews [(newer, Some ann), (older, Some ann)])
   \<and> reviews state2 = [older, newer]
   \<and> createdAt older < createdAt newer
   \<and> (\<exists>feed. reply (get_index env0 state2) = Render ''index'' (Reviews feed)
         \<and> mset (map fst feed) = mset (reviews state2))"
proof -
  have db: "\<not> db_fault env0 0" by (simp add: env0_def)
  have r: "reply (get_index env0 state2)
      = Render ''index'' (Reviews [(newer, Some ann), (older, Some ann)])"
    by (simp add: get_index_def Review_find_sorted_def populate_def state2_def older_def
        newer_def run_defs)
  have s: "reviews state2 = [older, newer]" "createdAt older < createdAt newer"
    by (simp_all add: state2_def older_def newer_def)
  from feed_newest_first [OF db, of state2]
  have "\<exists>feed. reply (get_index env0 state2) = Render ''index'' (Reviews feed)
         \<and> mset (map fst feed) = mset (reviews state2)" by blast
  with db r s show ?thesis by blast
qed

subsection \<open>Failed logins\<close>

text \<open>
  C7. A POST /login with both fields filled in, whose lookup the store answers, is
  answered with the login form and the one message \<open>InvalidCredentials\<close>, and leaves the
  state (so also the session) as it was, in both cases: when no stored user has the
  submitted email, and when the user found has a hash that the submitted password does
  not verify against.
\<close>

theorem login_failure_generic:
  assumes "truthy (field req ''email'')" and "truthy (field req ''password'')"
    and "\<not> db_fault e 0"
    and "(\<forall>u\<in>set (users s). email u \<noteq> str_of (field req ''email''))
         \<or> (\<exists>u. find (\<lambda>u. email u = str_of (field req ''email'')) (users s) = Some u
               \<and> comparePassword e 1 u (str_of (field req ''password'')) = Inr False)"
  shows "reply (post_login e req s) = Render ''login'' (Error (Some InvalidCredentials))
         \<and> final (post_login e req s) = s"
  using assms(4)
proof
  assume "\<forall>u\<in>set (users s). email u \<noteq> str_of (field req ''email'')"
  then have "find (\<lambda>u. email u = str_of (field req ''email'')) (users s) = None"
    by (simp add: find_None_iff)
  with assms(1-3) show ?thesis
    by (simp add: post_login_def User_findOne_def render_def)
next
  assume "\<exists>u. find (\<lambda>u. email u = str_of (field req ''email'')) (users s) = Some u
               \<and> comparePassword e 1 u (str_of (field req ''password'')) = Inr False"
  then obtain u where "find (\<lambda>u. email u = str_of (field req ''email'')) (users s) = Some u"
    "comparePassword e 1 u (str_of (field req ''password'')) = Inr False" by blast
  with assms(1-3) show ?thesis
    by (simp add: post_login_def User_findOne_def render_def)
qed

text \<open>
  C7 on concrete input: ann's email with a wrong password and an unknown email with
  ann's password get the same reply and no session; the right password logs in.
\<close>

theorem login_failure_generic_witness:
  "reply (post_login env0 wrong_password state0)
     = Render ''login'' (Error (Some InvalidCredentials))
   \<and> reply (post_login env0 unknown_email state0)
     = Render ''login'' (Error (Some InvalidCredentials))
   \<and> final (post_login env0 wrong_password state0) = state0
   \<and> final (post_login env0 unknown_email state0) = state0
   \<and> session_user state0 = None
   \<and> reply (post_login env0 good_login state0) = Redirect ''/''"
proof -
  have w: "truthy (field wrong_password ''email'')" "truthy (field wrong_password ''password'')"
    and u: "truthy (field unknown_email ''email'')" "truthy (field unknown_email ''password'')"
    by (simp_all add: wrong_password_def unknown_email_def form_def field_def truthy_def)
  have db: "\<not> db_fault env0 0" by (simp add: env0_def)
  have nobody: "\<forall>u\<in>set (users state0). email u \<noteq> str_of (field unknown_email ''email'')"
    by (simp add: unknown_email_def state0_def ann_def form_def field_def)
  have mismatch:
    "\<exists>u. find (\<lambda>u. email u = str_of (field wrong_password ''email'')) (users state0) = Some u
       \<and> comparePassword env0 1 u (str_of (field wrong_password ''password'')) = Inr False"
    by (simp add: wrong_password_def state0_def ann_def form_def field_def env0_def
        comparePassword_def)
  have anon: "session_user state0 = None" by (simp add: state0_def)
  have good: "reply (post_login env0 good_login state0) = Redirect ''/''"
    by (simp add: post_login_def User_findOne_def comparePassword_def good_login_def run_defs)
  from login_failure_generic [OF w db disjI2 [OF mismatch]]
    login_failure_generic [OF u db disjI1 [OF nobody]] anon good
  show ?thesis by blast
qed

subsection \<open>The CSRF guard\<close>

text \<open>
  C8, as the code has it. The guard goes by the HTTP method. A request whose method is
  not GET, HEAD or OPTIONS, and whose token is absent or does not verify against the
  request's secret, is answered with \<open>Forbidden\<close> before any route handler runs: the
  state is returned as it was and nothing more happens. A GET, HEAD or OPTIONS request
  is not checked and goes to the router.
\<close>

theorem csrf_guard_by_method:
  "(\<not> ignored_method (meth req)
      \<and> (csrf_value req = None
          \<or> (\<exists>t. csrf_value req = Some t \<and> \<not> token_matches e (csrf_secret e req) t)) \<longrightarrow>
      reply (app e req s) = Forbidden \<and> cleared (app e req s) = [] \<and> final (app e req s) = s)
   \<and> (ignored_method (meth req) \<longrightarrow> app e req s = route e req s)
   \<and> (ignored_method (meth req) \<longleftrightarrow> meth req = GET \<or> meth req = HEAD \<or> meth req = OPTIONS)"
  by (auto simp add: app_def csrf_passes_def ignored_method_def)

text \<open>
  C8 on concrete input: a review posted by a logged-in user without a token is
  refused and stores nothing; a GET of the login form without a token is served.
\<close>

theorem csrf_guard_by_method_witness:
  "\<not> ignored_method (meth no_token) \<and> csrf_value no_token = None
   \<and> reply (app env0 no_token state1) = Forbidden
   \<and> final (app env0 no_token state1) = state1
   \<and> ignored_method (meth (form GET ''/login'' []))
   \<and> reply (app env0 (form GET ''/login'' []) state0) = Render ''login'' (Error None)"
proof -
  have m: "\<not> ignored_method (meth no_token)" "csrf_value no_token = None"
    by (simp_all add: no_token_def form_def ignored_method_def csrf_value_def truthy_def)
  have g: "ignored_method (meth (form GET ''/login'' []))"
    by (simp add: form_def ignored_method_def)
  have r: "reply (route env0 (form GET ''/login'' []) state0) = Render ''login'' (Error None)"
    by (simp add: route_def get_login_def form_def render_def)
  from csrf_guard_by_method [of no_token env0 state1]
    csrf_guard_by_method [of "form GET ''/login'' []" env0 state0] m g r
  show ?thesis by simp
qed

text \<open>
  C8 as stated covers every state-changing request. GET /logout changes the state (it
  destroys the session of a logged-in user), carries no token here, and is served.
\<close>

theorem csrf_exempt_logout_changes_state:
  "csrf_value (form GET ''/logout'' []) = None
   \<and> session_user state1 = Some (identity ann)
   \<and> reply (app env0 (form GET ''/logout'' []) state1) = Redirect ''/login''
   \<and> session_user (final (app env0 (form GET ''/logout'' []) state1)) = None"
  by (simp add: app_def route_def csrf_passes_def ignored_method_def csrf_value_def
      get_logout_def session_destroy_def review_param_def run_defs)

subsection \<open>Review detail\<close>





subsection \<open>What the session holds\<close>














end
